theory Spec2Isabelle
  imports Complex_Main "HOL-Library.AList"
begin

section \<open>Canonical JSON formatting of alignment results (munajjam/formatting.py)\<close>

text \<open>
  The module under verification has two functions, \<open>format_result\<close> and
  \<open>format_results\<close>. Both read Python objects (an \<open>AlignmentResult\<close>, the \<open>Ayah\<close> it
  refers to, a list of results) and build fresh dicts. The objects live in an explicit
  store, every function is a computation over that store that either raises or returns,
  and a dict is an association list in insertion order.

  A Python \<open>float\<close> is modelled by the real number it denotes. The float attributes a
  result is built from are finite (no NaN, no infinity). What the program computes from
  them is computed as binary64 does: the difference of two floats is rounded to the
  nearest float, or is an infinity when it is beyond the float range, and the built-in
  \<open>round\<close> raises \<open>OverflowError\<close> where CPython does. The decimal a rounding yields is
  kept as it is, without the last conversion to the nearest float.
  A Python \<open>str\<close> is a \<open>string\<close> (the formatter never looks inside one), and a Python
  \<open>int\<close> is an unbounded \<open>int\<close>.
\<close>

subsection \<open>Floats\<close>

text \<open>A float that a computation yields: a finite value or an infinity.\<close>

datatype pyfloat = Finite real | PosInf | NegInf

fun float_nonneg :: "pyfloat \<Rightarrow> bool" where
  "float_nonneg (Finite x) = (0 \<le> x)"
| "float_nonneg PosInf = True"
| "float_nonneg NegInf = False"

text \<open>Rounding to the nearest integer, ties to the even one.\<close>

definition round_half_even :: "real \<Rightarrow> int" where
  "round_half_even x =
     (let f = \<lfloor>x\<rfloor>; d = x - of_int f
      in if d < 1 / 2 then f
         else if 1 / 2 < d then f + 1
         else if even f then f else f + 1)"

text \<open>
  The least magnitude that rounds to no finite binary64 value: half way between the
  largest float, \<open>(2 ^ 53 - 1) * 2 ^ 971\<close>, and \<open>2 ^ 1024\<close>.
\<close>

definition float_overflow :: real where
  "float_overflow = 2 ^ 1024 - 2 ^ 970"

text \<open>
  The binary exponent of a positive real, \<open>\<lfloor>log\<^sub>2 x\<rfloor>\<close>, found by halving and doubling.
  The first argument bounds the number of steps; 1100 are enough for every magnitude
  from \<open>2 ^ - 1100\<close> up to the float range, and below \<open>2 ^ - 1022\<close> the exponent of a float no
  longer depends on the magnitude.
\<close>

fun float_exponent :: "nat \<Rightarrow> real \<Rightarrow> int" where
  "float_exponent 0 x = 0"
| "float_exponent (Suc n) x =
     (if 2 \<le> x then float_exponent n (x / 2) + 1
      else if x < 1 then float_exponent n (x * 2) - 1
      else 0)"

text \<open>
  The binary64 value of a real, rounded to nearest, ties to even: 53 significant bits,
  exponents from -1022 (subnormals below share the unit \<open>2 ^ - 1074\<close>), and an infinity
  from \<open>float_overflow\<close> on.
\<close>

definition binary64 :: "real \<Rightarrow> pyfloat" where
  "binary64 x =
     (if float_overflow \<le> \<bar>x\<bar> then (if 0 < x then PosInf else NegInf)
      else let e = max (float_exponent 1100 \<bar>x\<bar>) (- 1022);
               ulp = 2 powi (e - 52)
           in Finite (of_int (round_half_even (x / ulp)) * ulp))"

text \<open>The float operation \<open>x - y\<close> on two finite floats.\<close>

definition float_sub :: "real \<Rightarrow> real \<Rightarrow> pyfloat" where
  "float_sub x y = binary64 (x - y)"

subsection \<open>Objects and the store\<close>

type_synonym addr = nat

text \<open>
  Modelled from the spec: the class \<open>Ayah\<close> of munajjam.models, which is not among the
  sources at hand, with the three attributes the formatter reads: \<open>surah_id\<close> and
  \<open>ayah_number\<close> (integers) and \<open>text\<close> (the reference string).
\<close>

record Ayah =
  surah_id :: int
  ayah_number :: int
  "text" :: string

text \<open>
  Modelled from the spec: the class \<open>AlignmentResult\<close> of munajjam.models, which is not
  among the sources at hand. The attribute \<open>ayah\<close> is a reference to an \<open>Ayah\<close> object.
  The tests build a result from \<open>ayah\<close>, \<open>start_time\<close>, \<open>end_time\<close>, \<open>transcribed_text\<close>,
  \<open>similarity_score\<close> and \<open>overlap_detected\<close>; the spec gives \<open>is_high_confidence\<close> as a
  derived boolean fixed when the result is built (the threshold in effect is not visible
  to the formatter), so the object carries its value.
\<close>

record AlignmentResult =
  ayah :: addr
  start_time :: real
  end_time :: real
  transcribed_text :: string
  similarity_score :: real
  is_high_confidence :: bool
  overlap_detected :: bool

text \<open>
  Modelled from the spec: the attribute \<open>duration\<close> of \<open>AlignmentResult\<close>, which is
  missing with the class, is "derived = \<open>end_time - start_time\<close>, not independently
  settable". Both attributes are floats, so the difference is the float difference.
\<close>

definition duration :: "AlignmentResult \<Rightarrow> pyfloat" where
  "duration r = float_sub (end_time r) (start_time r)"

datatype object = Ayah_obj Ayah | Result_obj AlignmentResult | List_obj "addr list"

type_synonym store = "addr \<Rightarrow> object option"

text \<open>
  The values a dict entry can hold. Besides the JSON-ready kinds there are \<open>None\<close> and a
  reference to an arbitrary object (such as an \<open>Ayah\<close> instance), which a formatter could
  emit and \<open>json.dumps\<close> would not accept as one of the kinds below.
\<close>

datatype pyval =
    VNone
  | VInt int
  | VFloat pyfloat
  | VStr string
  | VBool bool
  | VList "pyval list"
  | VDict "(string \<times> pyval) list"
  | VObj addr

type_synonym dict = "(string \<times> pyval) list"

datatype error = AttributeError | TypeError | OverflowError

text \<open>An argument with a default value is either left out of the call or given.\<close>

datatype 'a arg = Omitted | Given 'a

fun given_or :: "'a \<Rightarrow> 'a arg \<Rightarrow> 'a" where
  "given_or d Omitted = d"
| "given_or d (Given x) = x"

subsection \<open>Computations over the store\<close>

type_synonym 'a py = "store \<Rightarrow> (error + 'a) \<times> store"

definition py_return :: "'a \<Rightarrow> 'a py" where
  "py_return x = (\<lambda>h. (Inr x, h))"

definition py_lift :: "error + 'a \<Rightarrow> 'a py" where
  "py_lift v = (\<lambda>h. (v, h))"

definition py_bind :: "'a py \<Rightarrow> ('a \<Rightarrow> 'b py) \<Rightarrow> 'b py" where
  "py_bind m f =
     (\<lambda>h. case m h of (Inl e, h') \<Rightarrow> (Inl e, h') | (Inr x, h') \<Rightarrow> f x h')"

text \<open>
  Reading an attribute of an object that is not of the expected class raises; so does
  iterating over something that is not a list.
\<close>

definition get_result :: "addr \<Rightarrow> AlignmentResult py" where
  "get_result a =
     (\<lambda>h. case h a of Some (Result_obj r) \<Rightarrow> (Inr r, h) | _ \<Rightarrow> (Inl AttributeError, h))"

definition get_ayah :: "addr \<Rightarrow> Ayah py" where
  "get_ayah a =
     (\<lambda>h. case h a of Some (Ayah_obj y) \<Rightarrow> (Inr y, h) | _ \<Rightarrow> (Inl AttributeError, h))"

definition get_list :: "addr \<Rightarrow> addr list py" where
  "get_list a =
     (\<lambda>h. case h a of Some (List_obj rs) \<Rightarrow> (Inr rs, h) | _ \<Rightarrow> (Inl TypeError, h))"

subsection \<open>The built-in \<open>round(x, ndigits)\<close> on a float\<close>

text \<open>
  CPython rounds a finite float to \<open>ndigits\<close> decimal places correctly (the nearest
  multiple of \<open>10 ^ (- ndigits)\<close>, ties to the even multiple). For \<open>ndigits\<close> above 323
  every float rounds to itself, below -308 every float rounds to zero, and in between the
  rounded decimal is converted back to a float, which raises \<open>OverflowError\<close> ("rounded
  value too large to represent") when it lies at or beyond \<open>float_overflow\<close>. An infinity
  rounds to itself at every \<open>ndigits\<close>.
\<close>

definition NDIGITS_MAX :: int where
  "NDIGITS_MAX = 323"

definition NDIGITS_MIN :: int where
  "NDIGITS_MIN = - 308"

definition decimal_round :: "real \<Rightarrow> int \<Rightarrow> real" where
  "decimal_round x ndigits =
     (if 0 \<le> ndigits
      then of_int (round_half_even (x * 10 ^ nat ndigits)) / 10 ^ nat ndigits
      else of_int (round_half_even (x / 10 ^ nat (- ndigits))) * 10 ^ nat (- ndigits))"

definition py_round :: "real \<Rightarrow> int \<Rightarrow> error + real" where
  "py_round x ndigits =
     (if NDIGITS_MAX < ndigits then Inr x
      else if ndigits < NDIGITS_MIN then Inr 0
      else if float_overflow \<le> \<bar>decimal_round x ndigits\<bar> then Inl OverflowError
      else Inr (decimal_round x ndigits))"

fun round_float :: "pyfloat \<Rightarrow> int \<Rightarrow> error + pyfloat" where
  "round_float (Finite x) ndigits =
     (case py_round x ndigits of Inl e \<Rightarrow> Inl e | Inr y \<Rightarrow> Inr (Finite y))"
| "round_float PosInf ndigits = Inr PosInf"
| "round_float NegInf ndigits = Inr NegInf"

subsection \<open>\<open>format_result\<close>\<close>

text \<open>
  The dict display evaluates its entries in order: the reads through \<open>result.ayah\<close>,
  then the roundings of \<open>start_time\<close>, \<open>end_time\<close>, \<open>duration\<close> and \<open>similarity_score\<close>.
  The first of them that raises ends the call. Nothing is written between the reads, so
  the result object and its ayah are read once each, where the source reads
  \<open>result.ayah\<close> three times and \<open>result\<close> for every entry.
\<close>

definition format_result :: "addr \<Rightarrow> int arg \<Rightarrow> dict py" where
  "format_result result precision_arg =
     (let precision = given_or 3 precision_arg in
      py_bind (get_result result) (\<lambda>r.
      py_bind (get_ayah (ayah r)) (\<lambda>a.
      py_bind (py_lift (round_float (Finite (start_time r)) precision)) (\<lambda>rounded_start.
      py_bind (py_lift (round_float (Finite (end_time r)) precision)) (\<lambda>rounded_end.
      py_bind (py_lift (round_float (duration r) precision)) (\<lambda>rounded_duration.
      py_bind (py_lift (round_float (Finite (similarity_score r)) precision)) (\<lambda>rounded_score.
      py_return
        [(''ayah_number'', VInt (ayah_number a)),
         (''surah_id'', VInt (surah_id a)),
         (''start_time'', VFloat rounded_start),
         (''end_time'', VFloat rounded_end),
         (''duration'', VFloat rounded_duration),
         (''transcribed_text'', VStr (transcribed_text r)),
         (''reference_text'', VStr (text a)),
         (''similarity_score'', VFloat rounded_score),
         (''is_high_confidence'', VBool (is_high_confidence r)),
         (''overlap_detected'', VBool (overlap_detected r))])))))))"

subsection \<open>\<open>format_results\<close>\<close>

text \<open>The comprehension \<open>[format_result(r, precision) for r in results]\<close>.\<close>

fun format_each :: "addr list \<Rightarrow> int \<Rightarrow> pyval list py" where
  "format_each [] precision = py_return []"
| "format_each (r # rs) precision =
     py_bind (format_result r (Given precision)) (\<lambda>d.
     py_bind (format_each rs precision) (\<lambda>ds.
     py_return (VDict d # ds)))"

text \<open>
  \<open>surah_id\<close> and \<open>reciter\<close> default to \<open>None\<close>, so leaving them out and passing \<open>None\<close>
  are the same call. \<open>output[k] = v\<close> is \<open>AList.update\<close>: it replaces the value of a
  key that is present and appends the entry otherwise.
\<close>

definition format_results ::
  "addr \<Rightarrow> int option \<Rightarrow> string option \<Rightarrow> int arg \<Rightarrow> dict py" where
  "format_results results surah_id' reciter precision_arg =
     (let precision = given_or 3 precision_arg in
      py_bind (get_list results) (\<lambda>rs.
      py_bind (format_each rs precision) (\<lambda>ayahs.
      let output = [(''ayahs'', VList ayahs)];
          output = (case surah_id' of None \<Rightarrow> output
                    | Some s \<Rightarrow> AList.update ''surah_id'' (VInt s) output);
          output = (case reciter of None \<Rightarrow> output
                    | Some n \<Rightarrow> AList.update ''reciter'' (VStr n) output)
      in py_return output)))"

subsection \<open>Predicates the properties are stated with\<close>

text \<open>
  The kinds of value the JSON schema of the formatter allows: int, float, str, bool,
  list and dict, the last two with allowed members only.
\<close>

fun json_type :: "pyval \<Rightarrow> bool" where
  "json_type (VInt i) = True"
| "json_type (VFloat x) = True"
| "json_type (VStr s) = True"
| "json_type (VBool b) = True"
| "json_type (VList vs) = list_all json_type vs"
| "json_type (VDict kvs) = list_all (\<lambda>kv. json_type (snd kv)) kvs"
| "json_type VNone = False"
| "json_type (VObj a) = False"

text \<open>
  What a well-typed call of \<open>format_result\<close> can see of the store: the result object at
  the address and the ayah object it refers to.
\<close>

definition read_result :: "store \<Rightarrow> addr \<Rightarrow> (AlignmentResult \<times> Ayah) option" where
  "read_result h a =
     (case h a of
        Some (Result_obj r) \<Rightarrow>
          (case h (ayah r) of Some (Ayah_obj y) \<Rightarrow> Some (r, y) | _ \<Rightarrow> None)
      | _ \<Rightarrow> None)"

text \<open>
  Two results, each in its own store and at its own address, with equal field values:
  the ayahs they refer to are compared by their fields, not by their addresses.
\<close>

definition same_result :: "store \<Rightarrow> addr \<Rightarrow> store \<Rightarrow> addr \<Rightarrow> bool" where
  "same_result h1 a1 h2 a2 =
     (case (read_result h1 a1, read_result h2 a2) of
        (Some (r1, y1), Some (r2, y2)) \<Rightarrow>
          y1 = y2 \<and>
          start_time r1 = start_time r2 \<and> end_time r1 = end_time r2 \<and>
          transcribed_text r1 = transcribed_text r2 \<and>
          similarity_score r1 = similarity_score r2 \<and>
          is_high_confidence r1 = is_high_confidence r2 \<and>
          overlap_detected r1 = overlap_detected r2
      | _ \<Rightarrow> False)"

subsection \<open>Sample data\<close>

text \<open>
  Two results in the shape of the fixtures of the unit tests, a list of both and an empty
  list. The times and scores are binary fractions, so that the reals below are exactly
  the floats Python holds; the texts are transliterated.
\<close>

definition sample_ayah :: Ayah where
  "sample_ayah = \<lparr>surah_id = 1, ayah_number = 1, text = ''bismi allahi alrrahmani alrraheemi''\<rparr>"

definition sample_ayah_2 :: Ayah where
  "sample_ayah_2 = \<lparr>surah_id = 1, ayah_number = 2, text = ''alhamdu lillahi rabbi alAAalameena''\<rparr>"

definition sample_result :: AlignmentResult where
  "sample_result =
     \<lparr>ayah = 11, start_time = 181 / 32, end_time = 73 / 8,
      transcribed_text = ''bismi allahi alrrahmani alrraheemi'',
      similarity_score = 31 / 32, is_high_confidence = True, overlap_detected = False\<rparr>"

definition sample_result_with_overlap :: AlignmentResult where
  "sample_result_with_overlap =
     \<lparr>ayah = 21, start_time = 10, end_time = 14,
      transcribed_text = ''alhamdu lillahi rabbi alAAalameena'',
      similarity_score = 23 / 32, is_high_confidence = False, overlap_detected = True\<rparr>"

definition sample_store :: store where
  "sample_store =
     [10 \<mapsto> Result_obj sample_result, 20 \<mapsto> Result_obj sample_result_with_overlap,
      11 \<mapsto> Ayah_obj sample_ayah, 21 \<mapsto> Ayah_obj sample_ayah_2,
      30 \<mapsto> List_obj [10, 20], 40 \<mapsto> List_obj []]"

text \<open>
  What Python returns for the two sample results at the default precision (each rounded
  time and score being the float nearest to the decimal written here).
\<close>

definition sample_out :: dict where
  "sample_out =
     [(''ayah_number'', VInt 1),
      (''surah_id'', VInt 1),
      (''start_time'', VFloat (Finite (5656 / 1000))),
      (''end_time'', VFloat (Finite (9125 / 1000))),
      (''duration'', VFloat (Finite (3469 / 1000))),
      (''transcribed_text'', VStr ''bismi allahi alrrahmani alrraheemi''),
      (''reference_text'', VStr ''bismi allahi alrrahmani alrraheemi''),
      (''similarity_score'', VFloat (Finite (969 / 1000))),
      (''is_high_confidence'', VBool True),
      (''overlap_detected'', VBool False)]"

definition sample_out_with_overlap :: dict where
  "sample_out_with_overlap =
     [(''ayah_number'', VInt 2),
      (''surah_id'', VInt 1),
      (''start_time'', VFloat (Finite 10)),
      (''end_time'', VFloat (Finite 14)),
      (''duration'', VFloat (Finite 4)),
      (''transcribed_text'', VStr ''alhamdu lillahi rabbi alAAalameena''),
      (''reference_text'', VStr ''alhamdu lillahi rabbi alAAalameena''),
      (''similarity_score'', VFloat (Finite (719 / 1000))),
      (''is_high_confidence'', VBool False),
      (''overlap_detected'', VBool True)]"

text \<open>And at precision 2.\<close>

definition sample_out_2 :: dict where
  "sample_out_2 =
     [(''ayah_number'', VInt 1),
      (''surah_id'', VInt 1),
      (''start_time'', VFloat (Finite (566 / 100))),
      (''end_time'', VFloat (Finite (912 / 100))),
      (''duration'', VFloat (Finite (347 / 100))),
      (''transcribed_text'', VStr ''bismi allahi alrrahmani alrraheemi''),
      (''reference_text'', VStr ''bismi allahi alrrahmani alrraheemi''),
      (''similarity_score'', VFloat (Finite (97 / 100))),
      (''is_high_confidence'', VBool True),
      (''overlap_detected'', VBool False)]"

definition sample_out_with_overlap_2 :: dict where
  "sample_out_with_overlap_2 =
     [(''ayah_number'', VInt 2),
      (''surah_id'', VInt 1),
      (''start_time'', VFloat (Finite 10)),
      (''end_time'', VFloat (Finite 14)),
      (''duration'', VFloat (Finite 4)),
      (''transcribed_text'', VStr ''alhamdu lillahi rabbi alAAalameena''),
      (''reference_text'', VStr ''alhamdu lillahi rabbi alAAalameena''),
      (''similarity_score'', VFloat (Finite (72 / 100))),
      (''is_high_confidence'', VBool False),
      (''overlap_detected'', VBool True)]"

text \<open>The same two results and their list at other addresses, among other objects.\<close>

definition relocated_store :: store where
  "relocated_store =
     [110 \<mapsto> Result_obj (sample_result\<lparr>ayah := 111\<rparr>),
      120 \<mapsto> Result_obj (sample_result_with_overlap\<lparr>ayah := 121\<rparr>),
      111 \<mapsto> Ayah_obj sample_ayah, 121 \<mapsto> Ayah_obj sample_ayah_2,
      130 \<mapsto> List_obj [110, 120], 10 \<mapsto> List_obj [7]]"

text \<open>A result of a quarter of a second, from 0.375 s to 0.625 s.\<close>

definition short_result :: AlignmentResult where
  "short_result =
     \<lparr>ayah = 11, start_time = 3 / 8, end_time = 5 / 8,
      transcribed_text = ''bismi'',
      similarity_score = 1, is_high_confidence = True, overlap_detected = False\<rparr>"

definition short_store :: store where
  "short_store = [10 \<mapsto> Result_obj short_result, 11 \<mapsto> Ayah_obj sample_ayah]"

text \<open>What Python returns for it at precision 0.\<close>

definition short_out :: dict where
  "short_out =
     [(''ayah_number'', VInt 1),
      (''surah_id'', VInt 1),
      (''start_time'', VFloat (Finite 0)),
      (''end_time'', VFloat (Finite 1)),
      (''duration'', VFloat (Finite 0)),
      (''transcribed_text'', VStr ''bismi''),
      (''reference_text'', VStr ''bismi allahi alrrahmani alrraheemi''),
      (''similarity_score'', VFloat (Finite 1)),
      (''is_high_confidence'', VBool True),
      (''overlap_detected'', VBool False)]"

text \<open>
  A result from 0.7097 s to 11.7752 s, that is, between the floats nearest to these
  decimals. Their exact difference is no float: it lies just below 11.0655, and the
  float nearest to it, which is the duration, just above.
\<close>

definition inexact_result :: AlignmentResult where
  "inexact_result =
     \<lparr>ayah = 11,
      start_time = 3196204655544841 / 4503599627370496,
      end_time = 6628848291526633 / 562949953421312,
      transcribed_text = ''bismi'',
      similarity_score = 7 / 8, is_high_confidence = True, overlap_detected = False\<rparr>"

definition inexact_store :: store where
  "inexact_store = [10 \<mapsto> Result_obj inexact_result, 11 \<mapsto> Ayah_obj sample_ayah]"

text \<open>What Python returns for it at precision 3.\<close>

definition inexact_out :: dict where
  "inexact_out =
     [(''ayah_number'', VInt 1),
      (''surah_id'', VInt 1),
      (''start_time'', VFloat (Finite (710 / 1000))),
      (''end_time'', VFloat (Finite (11775 / 1000))),
      (''duration'', VFloat (Finite (11066 / 1000))),
      (''transcribed_text'', VStr ''bismi''),
      (''reference_text'', VStr ''bismi allahi alrrahmani alrraheemi''),
      (''similarity_score'', VFloat (Finite (875 / 1000))),
      (''is_high_confidence'', VBool True),
      (''overlap_detected'', VBool False)]"

text \<open>
  A result that ends at the largest finite float, \<open>(2 ^ 53 - 1) * 2 ^ 971\<close>
  (\<open>sys.float_info.max\<close>, about 1.7976931348623157e308).
\<close>

definition huge_result :: AlignmentResult where
  "huge_result =
     \<lparr>ayah = 11, start_time = 0, end_time = (2 ^ 53 - 1) * 2 ^ 971,
      transcribed_text = ''bismi'',
      similarity_score = 1, is_high_confidence = True, overlap_detected = False\<rparr>"

definition huge_store :: store where
  "huge_store = [10 \<mapsto> Result_obj huge_result, 11 \<mapsto> Ayah_obj sample_ayah]"

section \<open>Auxiliary facts\<close>

subsection \<open>The store is only read\<close>

lemma py_bind_frame:
  assumes "\<And>h. snd (m h) = h" and "\<And>x h. snd (f x h) = h"
  shows "snd (py_bind m f h) = h"
proof (cases "m h")
  case (Pair v h')
  with assms(1) [of h] have "h' = h" by simp
  with Pair assms(2) show ?thesis
    by (cases v) (simp_all add: py_bind_def)
qed

lemma py_return_frame: "snd (py_return x h) = h"
  by (simp add: py_return_def)

lemma py_lift_frame: "snd (py_lift v h) = h"
  by (simp add: py_lift_def)

lemma get_result_frame: "snd (get_result a h) = h"
  by (simp add: get_result_def split: option.split object.split)

lemma get_ayah_frame: "snd (get_ayah a h) = h"
  by (simp add: get_ayah_def split: option.split object.split)

lemma get_list_frame: "snd (get_list a h) = h"
  by (simp add: get_list_def split: option.split object.split)

lemmas frame_rules = py_bind_frame py_return_frame py_lift_frame get_result_frame
  get_ayah_frame get_list_frame

lemma format_result_frame: "snd (format_result result precision_arg h) = h"
  unfolding format_result_def Let_def by (intro frame_rules)

lemma format_each_frame: "snd (format_each rs precision h) = h"
  by (induction rs arbitrary: h) (auto intro!: frame_rules format_result_frame)

lemma format_results_frame: "snd (format_results results sid reciter precision_arg h) = h"
  unfolding format_results_def Let_def by (intro frame_rules format_each_frame)

subsection \<open>Computations that return\<close>

lemma py_bind_Inr: "m h = (Inr x, h') \<Longrightarrow> py_bind m f h = f x h'"
  by (simp add: py_bind_def)

lemma py_bind_Inl: "m h = (Inl e, h') \<Longrightarrow> py_bind m f h = (Inl e, h')"
  by (simp add: py_bind_def)

lemma py_bind_InrD:
  assumes "py_bind m f h = (Inr y, h'')"
  obtains x h' where "m h = (Inr x, h')" and "f x h' = (Inr y, h'')"
  using assms by (auto simp: py_bind_def split: prod.splits sum.splits)

lemma get_result_Inr: "get_result a h = (Inr r, h') \<longleftrightarrow> h a = Some (Result_obj r) \<and> h' = h"
  by (auto simp: get_result_def split: option.splits object.splits)

lemma get_ayah_Inr: "get_ayah a h = (Inr y, h') \<longleftrightarrow> h a = Some (Ayah_obj y) \<and> h' = h"
  by (auto simp: get_ayah_def split: option.splits object.splits)

lemma get_list_Inr: "get_list a h = (Inr rs, h') \<longleftrightarrow> h a = Some (List_obj rs) \<and> h' = h"
  by (auto simp: get_list_def split: option.splits object.splits)

lemma py_lift_Inr: "py_lift v h = (Inr x, h') \<longleftrightarrow> v = Inr x \<and> h' = h"
  by (auto simp: py_lift_def)

lemma py_return_Inr: "py_return x h = (Inr y, h') \<longleftrightarrow> y = x \<and> h' = h"
  by (auto simp: py_return_def)

lemma py_bind_fst:
  assumes "snd (m h) = h"
  shows "fst (py_bind m f h) = (case fst (m h) of Inl e \<Rightarrow> Inl e | Inr x \<Rightarrow> fst (f x h))"
  using assms by (cases "m h") (auto simp: py_bind_def split: sum.splits)

lemma read_result_Some:
  "read_result h a = Some (r, y) \<longleftrightarrow>
   h a = Some (Result_obj r) \<and> h (ayah r) = Some (Ayah_obj y)"
  by (auto simp: read_result_def split: option.splits object.splits)

subsection \<open>Rounding\<close>

lemma round_half_even_ge: "of_int n \<le> x \<Longrightarrow> n \<le> round_half_even x"
proof -
  assume "of_int n \<le> x"
  then have "n \<le> \<lfloor>x\<rfloor>" by (simp add: le_floor_iff)
  then show ?thesis by (simp add: round_half_even_def Let_def)
qed

lemma round_half_even_le: "x \<le> of_int n \<Longrightarrow> round_half_even x \<le> n"
proof -
  assume le: "x \<le> of_int n"
  show ?thesis
  proof (cases "x = of_int n")
    case True
    then show ?thesis by (simp add: round_half_even_def Let_def)
  next
    case False
    with le have "x < of_int n" by simp
    then have "\<lfloor>x\<rfloor> < n" by (simp add: floor_less_iff)
    then show ?thesis by (simp add: round_half_even_def Let_def)
  qed
qed

lemma round_half_even_near: "\<bar>of_int (round_half_even x) - x\<bar> \<le> 1 / 2"
  unfolding round_half_even_def Let_def
  by (auto simp: abs_le_iff)

lemma decimal_round_nonneg: "0 \<le> x \<Longrightarrow> 0 \<le> decimal_round x ndigits"
proof -
  assume x: "0 \<le> x"
  have a: "0 \<le> round_half_even (x * 10 ^ k)" for k
    using x by (intro round_half_even_ge) simp
  have b: "0 \<le> round_half_even (x / 10 ^ k)" for k
    using x by (intro round_half_even_ge) simp
  show ?thesis using a b by (simp add: decimal_round_def)
qed

text \<open>The decimal rounding is within half a unit of the last place kept.\<close>

lemma decimal_round_near:
  "\<bar>decimal_round x ndigits - x\<bar> \<le>
     (if 0 \<le> ndigits then 1 / (2 * 10 ^ nat ndigits) else 10 ^ nat (- ndigits) / 2)"
proof (cases "0 \<le> ndigits")
  case True
  define k where "k = nat ndigits"
  have "\<bar>of_int (round_half_even (x * 10 ^ k)) - x * 10 ^ k\<bar> \<le> 1 / 2"
    by (rule round_half_even_near)
  then have "\<bar>of_int (round_half_even (x * 10 ^ k)) - x * 10 ^ k\<bar> / 10 ^ k \<le> (1 / 2) / 10 ^ k"
    by (intro divide_right_mono) simp_all
  also have "\<bar>of_int (round_half_even (x * 10 ^ k)) - x * 10 ^ k\<bar> / 10 ^ k =
      \<bar>of_int (round_half_even (x * 10 ^ k)) / 10 ^ k - x\<bar>"
  proof -
    have "\<bar>of_int (round_half_even (x * 10 ^ k)) - x * 10 ^ k\<bar> / 10 ^ k =
        \<bar>(of_int (round_half_even (x * 10 ^ k)) - x * 10 ^ k) / 10 ^ k\<bar>"
      by (simp only: abs_divide) simp
    then show ?thesis by (simp add: diff_divide_distrib)
  qed
  finally show ?thesis using True by (simp add: decimal_round_def k_def)
next
  case False
  define k where "k = nat (- ndigits)"
  have "\<bar>of_int (round_half_even (x / 10 ^ k)) - x / 10 ^ k\<bar> \<le> 1 / 2"
    by (rule round_half_even_near)
  then have "\<bar>of_int (round_half_even (x / 10 ^ k)) - x / 10 ^ k\<bar> * 10 ^ k \<le> (1 / 2) * 10 ^ k"
    by (intro mult_right_mono) simp_all
  also have "\<bar>of_int (round_half_even (x / 10 ^ k)) - x / 10 ^ k\<bar> * 10 ^ k =
      \<bar>of_int (round_half_even (x / 10 ^ k)) * 10 ^ k - x\<bar>"
  proof -
    have "\<bar>of_int (round_half_even (x / 10 ^ k)) - x / 10 ^ k\<bar> * 10 ^ k =
        \<bar>(of_int (round_half_even (x / 10 ^ k)) - x / 10 ^ k) * 10 ^ k\<bar>"
      by (simp only: abs_mult) simp
    then show ?thesis by (simp add: left_diff_distrib)
  qed
  finally show ?thesis using False by (simp add: decimal_round_def k_def)
qed

lemma decimal_round_le_pow:
  assumes "x \<le> 10 ^ m" and "- int m \<le> ndigits"
  shows "decimal_round x ndigits \<le> 10 ^ m"
proof (cases "0 \<le> ndigits")
  case True
  define k where "k = nat ndigits"
  have "x * 10 ^ k \<le> 10 ^ m * 10 ^ k" using assms(1) by simp
  also have "\<dots> = of_int (10 ^ (m + k))" by (simp add: power_add)
  finally have "round_half_even (x * 10 ^ k) \<le> 10 ^ (m + k)" by (rule round_half_even_le)
  then have "(of_int (round_half_even (x * 10 ^ k)) :: real) \<le> of_int (10 ^ (m + k))"
    by (simp only: of_int_le_iff)
  then have "of_int (round_half_even (x * 10 ^ k)) / 10 ^ k \<le> (10 ^ m :: real)"
    by (simp add: power_add divide_le_eq)
  with True show ?thesis by (simp add: decimal_round_def k_def)
next
  case False
  define k where "k = nat (- ndigits)"
  from False assms(2) have k: "k \<le> m" by (simp add: k_def)
  have "x / 10 ^ k \<le> 10 ^ m / 10 ^ k" using assms(1) by (simp add: divide_right_mono)
  also have "\<dots> = (10 :: real) ^ (m - k)" using k by (simp add: power_diff)
  also have "\<dots> = of_int (10 ^ (m - k))" by simp
  finally have "round_half_even (x / 10 ^ k) \<le> 10 ^ (m - k)" by (rule round_half_even_le)
  then have "(of_int (round_half_even (x / 10 ^ k)) :: real) \<le> of_int (10 ^ (m - k))"
    by (simp only: of_int_le_iff)
  then have "of_int (round_half_even (x / 10 ^ k)) * 10 ^ k \<le> (10 ^ (m - k) * 10 ^ k :: real)"
    by simp
  also have "(10 ^ (m - k) * 10 ^ k :: real) = 10 ^ m"
    using k by (simp flip: power_add)
  finally show ?thesis using False by (simp add: decimal_round_def k_def)
qed

lemma decimal_round_ge_pow:
  assumes "- (10 ^ m) \<le> x" and "- int m \<le> ndigits"
  shows "- (10 ^ m) \<le> decimal_round x ndigits"
proof (cases "0 \<le> ndigits")
  case True
  define k where "k = nat ndigits"
  have "of_int (- (10 ^ (m + k))) = - (10 ^ m * 10 ^ k :: real)" by (simp add: power_add)
  also have "\<dots> \<le> x * 10 ^ k" using assms(1) by (simp flip: mult_minus_left)
  finally have "- (10 ^ (m + k)) \<le> round_half_even (x * 10 ^ k)" by (rule round_half_even_ge)
  then have "(of_int (- (10 ^ (m + k))) :: real) \<le> of_int (round_half_even (x * 10 ^ k))"
    by (simp only: of_int_le_iff)
  then have "- (10 ^ m :: real) \<le> of_int (round_half_even (x * 10 ^ k)) / 10 ^ k"
    by (simp add: power_add le_divide_eq)
  with True show ?thesis by (simp add: decimal_round_def k_def)
next
  case False
  define k where "k = nat (- ndigits)"
  from False assms(2) have k: "k \<le> m" by (simp add: k_def)
  have "of_int (- (10 ^ (m - k))) = - ((10 :: real) ^ (m - k))" by simp
  also have "\<dots> = - (10 ^ m / 10 ^ k :: real)" using k by (simp add: power_diff)
  also have "\<dots> = (- (10 ^ m)) / 10 ^ k" by simp
  also have "\<dots> \<le> x / 10 ^ k" using assms(1) by (intro divide_right_mono) simp_all
  finally have "- (10 ^ (m - k)) \<le> round_half_even (x / 10 ^ k)" by (rule round_half_even_ge)
  then have "(of_int (- (10 ^ (m - k))) :: real) \<le> of_int (round_half_even (x / 10 ^ k))"
    by (simp only: of_int_le_iff)
  then have "(- (10 ^ (m - k)) :: real) * 10 ^ k \<le> of_int (round_half_even (x / 10 ^ k)) * 10 ^ k"
    by (intro mult_right_mono) simp_all
  moreover have "(- (10 ^ (m - k)) :: real) * 10 ^ k = - (10 ^ m)"
    using k by (simp flip: power_add)
  ultimately show ?thesis using False by (simp add: decimal_round_def k_def)
qed

lemma decimal_round_abs_pow:
  "\<bar>x\<bar> \<le> 10 ^ m \<Longrightarrow> - int m \<le> ndigits \<Longrightarrow> \<bar>decimal_round x ndigits\<bar> \<le> 10 ^ m"
proof -
  assume x: "\<bar>x\<bar> \<le> 10 ^ m" and n: "- int m \<le> ndigits"
  from x have "x \<le> 10 ^ m" and "- (10 ^ m) \<le> x" by (simp_all add: abs_le_iff minus_le_iff)
  with n have "decimal_round x ndigits \<le> 10 ^ m" and "- (10 ^ m) \<le> decimal_round x ndigits"
    by (simp_all only: decimal_round_le_pow decimal_round_ge_pow)
  then show ?thesis by (simp add: abs_le_iff minus_le_iff)
qed

lemma below_float_overflow: "(10 ^ 308 :: real) < float_overflow"
  by (simp add: float_overflow_def)

lemma py_round_returns:
  assumes "\<bar>x\<bar> \<le> 10 ^ 308"
  shows "\<exists>y. py_round x ndigits = Inr y"
proof (cases "NDIGITS_MIN \<le> ndigits \<and> ndigits \<le> NDIGITS_MAX")
  case True
  then have "- int 308 \<le> ndigits" by (simp add: NDIGITS_MIN_def)
  with assms have "\<bar>decimal_round x ndigits\<bar> \<le> 10 ^ 308"
    by (rule decimal_round_abs_pow)
  also note below_float_overflow
  finally have "\<not> float_overflow \<le> \<bar>decimal_round x ndigits\<bar>" by simp
  then show ?thesis by (simp add: py_round_def)
next
  case False
  then show ?thesis by (auto simp: py_round_def)
qed

lemma py_round_nonneg: "0 \<le> x \<Longrightarrow> py_round x ndigits = Inr y \<Longrightarrow> 0 \<le> y"
  by (auto simp: py_round_def decimal_round_nonneg split: if_splits)

lemma py_round_returns_wide:
  assumes "\<bar>x\<bar> \<le> 10 ^ 308 + 2 ^ 970"
  shows "\<exists>y. py_round x ndigits = Inr y"
proof (cases "NDIGITS_MIN \<le> ndigits \<and> ndigits \<le> NDIGITS_MAX")
  case True
  then have n: "- 308 \<le> ndigits" by (simp add: NDIGITS_MIN_def)
  have unit: "(if 0 \<le> ndigits then 1 / (2 * 10 ^ nat ndigits) else 10 ^ nat (- ndigits) / 2)
      \<le> (10 ^ 308 / 2 :: real)"
  proof (cases "0 \<le> ndigits")
    case True
    have "(1 :: real) \<le> 10 ^ nat ndigits" by simp
    then have "1 / (2 * 10 ^ nat ndigits) \<le> (1 / 2 :: real)" by (simp add: field_simps)
    also have "\<dots> \<le> 10 ^ 308 / 2" by simp
    finally show ?thesis using True by simp
  next
    case False
    with n have "nat (- ndigits) \<le> 308" by simp
    then have "(10 :: real) ^ nat (- ndigits) \<le> 10 ^ 308" by (intro power_increasing) simp_all
    with False show ?thesis by simp
  qed
  have "\<bar>decimal_round x ndigits\<bar> \<le> \<bar>decimal_round x ndigits - x\<bar> + \<bar>x\<bar>" by simp
  also have "\<dots> \<le> 10 ^ 308 / 2 + (10 ^ 308 + 2 ^ 970)"
    using decimal_round_near [of x ndigits] unit assms by (intro add_mono) linarith+
  also have "\<dots> < float_overflow" by (simp add: float_overflow_def)
  finally have "\<not> float_overflow \<le> \<bar>decimal_round x ndigits\<bar>" by simp
  then show ?thesis by (simp add: py_round_def)
next
  case False
  then show ?thesis by (auto simp: py_round_def)
qed

lemma round_float_nonneg:
  "float_nonneg x \<Longrightarrow> round_float x ndigits = Inr y \<Longrightarrow> float_nonneg y"
  by (cases x) (auto split: sum.splits dest: py_round_nonneg)

lemma round_float_Finite_Inr:
  "round_float (Finite x) ndigits = Inr y \<longleftrightarrow> (\<exists>z. py_round x ndigits = Inr z \<and> y = Finite z)"
  by (auto split: sum.splits)

lemma round_float_returns:
  "\<bar>x\<bar> \<le> 10 ^ 308 \<Longrightarrow> \<exists>y. round_float (Finite x) ndigits = Inr y"
proof -
  assume "\<bar>x\<bar> \<le> 10 ^ 308"
  then obtain z where "py_round x ndigits = Inr z" using py_round_returns by blast
  then show ?thesis by simp
qed

lemma round_float_returns_wide:
  "\<bar>x\<bar> \<le> 10 ^ 308 + 2 ^ 970 \<Longrightarrow> \<exists>y. round_float (Finite x) ndigits = Inr y"
proof -
  assume "\<bar>x\<bar> \<le> 10 ^ 308 + 2 ^ 970"
  then obtain z where "py_round x ndigits = Inr z" using py_round_returns_wide by blast
  then show ?thesis by simp
qed

subsection \<open>Float subtraction\<close>

lemma float_exponent_numeral:
  "float_exponent (numeral k) x =
     (if 2 \<le> x then float_exponent (pred_numeral k) (x / 2) + 1
      else if x < 1 then float_exponent (pred_numeral k) (x * 2) - 1
      else 0)"
  by (simp add: numeral_eq_Suc)

text \<open>The exponent found is below that of every power of two above the argument.\<close>

lemma float_exponent_less:
  "0 < k \<Longrightarrow> x < 2 ^ k \<Longrightarrow> float_exponent n x < int k"
proof (induction n arbitrary: x k)
  case 0
  then show ?case by simp
next
  case (Suc n)
  show ?case
  proof (cases "2 \<le> x")
    case True
    with Suc.prems obtain j where k: "k = Suc j" by (cases k) auto
    with Suc.prems True have "0 < j" by (cases j) auto
    moreover from Suc.prems k have "x / 2 < 2 ^ j" by simp
    ultimately have "float_exponent n (x / 2) < int j" by (rule Suc.IH)
    with True k show ?thesis by simp
  next
    case False
    show ?thesis
    proof (cases "x < 1")
      case True
      then have "x * 2 < 2 ^ 1" by simp
      with Suc.IH [of 1 "x * 2"] have "float_exponent n (x * 2) < 1" by simp
      with True False Suc.prems show ?thesis by simp
    next
      case False
      with \<open>\<not> 2 \<le> x\<close> Suc.prems show ?thesis by simp
    qed
  qed
qed

text \<open>With enough steps the exponent found is the binary logarithm, rounded down.\<close>

lemma float_exponent_bounds:
  assumes "2 powi (- int n) \<le> x" and "x < 2 powi (int n)"
  shows "2 powi (float_exponent n x) \<le> x \<and> x < 2 powi (float_exponent n x + 1)"
  using assms
proof (induction n arbitrary: x)
  case 0
  then show ?case by simp
next
  case (Suc n)
  show ?case
  proof (cases "2 \<le> x")
    case True
    have "2 powi (- int n) \<le> (1 :: real)"
      by (simp add: power_int_minus field_simps)
    also have "1 \<le> x / 2" using True by simp
    finally have lo: "2 powi (- int n) \<le> x / 2" .
    from Suc.prems(2) have hi: "x / 2 < 2 powi (int n)"
      by (simp add: power_int_add field_simps)
    from Suc.IH [OF lo hi] True show ?thesis
      by (simp add: power_int_add field_simps)
  next
    case False
    show ?thesis
    proof (cases "x < 1")
      case True
      from Suc.prems(1) have lo: "2 powi (- int n) \<le> x * 2"
        by (simp add: power_int_diff power_int_minus field_simps)
      have hi: "x * 2 < 2 powi (int n) \<or> n = 0"
      proof (cases n)
        case 0
        then show ?thesis by simp
      next
        case (Suc m)
        have "x * 2 < 2" using True by simp
        also have "(2 :: real) \<le> 2 ^ n" using Suc by simp
        finally show ?thesis by simp
      qed
      then show ?thesis
      proof
        assume hi: "x * 2 < 2 powi (int n)"
        from Suc.IH [OF lo hi] True False show ?thesis
          by (simp add: power_int_diff power_int_add field_simps)
      next
        assume "n = 0"
        with lo True show ?thesis by (simp add: power_int_minus field_simps)
      qed
    next
      case False
      with \<open>\<not> 2 \<le> x\<close> show ?thesis by simp
    qed
  qed
qed

lemma float_overflow_pos: "0 < float_overflow"
  by (simp add: float_overflow_def)

lemma binary64_nonneg: "0 \<le> x \<Longrightarrow> float_nonneg (binary64 x)"
proof -
  assume x: "0 \<le> x"
  have "0 \<le> round_half_even (x / 2 powi k)" for k
    using x by (intro round_half_even_ge) simp
  moreover have "0 < x" if "float_overflow \<le> \<bar>x\<bar>"
    using that x float_overflow_pos by linarith
  ultimately show ?thesis by (auto simp: binary64_def Let_def)
qed

text \<open>A difference within the float range is off by at most half the largest unit.\<close>

lemma binary64_near:
  assumes "\<bar>x\<bar> < float_overflow"
  shows "\<exists>d. binary64 x = Finite d \<and> \<bar>d - x\<bar> \<le> 2 ^ 970"
proof -
  define e where "e = max (float_exponent 1100 \<bar>x\<bar>) (- 1022)"
  define ulp :: real where "ulp = 2 powi (e - 52)"
  have "\<bar>x\<bar> < 2 ^ 1024" using assms by (simp add: float_overflow_def)
  then have "float_exponent 1100 \<bar>x\<bar> < int 1024" by (intro float_exponent_less) simp_all
  then have "e - 52 \<le> 971" by (simp add: e_def)
  then have "ulp \<le> 2 powi 971" unfolding ulp_def by (intro power_int_increasing) simp_all
  then have ulp: "ulp \<le> 2 ^ 971" by simp
  have pos: "0 < ulp" by (simp add: ulp_def)
  have "\<bar>of_int (round_half_even (x / ulp)) - x / ulp\<bar> \<le> 1 / 2" by (rule round_half_even_near)
  then have "\<bar>of_int (round_half_even (x / ulp)) - x / ulp\<bar> * ulp \<le> 1 / 2 * ulp"
    using pos by (intro mult_right_mono) simp_all
  moreover have "\<bar>of_int (round_half_even (x / ulp)) - x / ulp\<bar> * ulp =
      \<bar>of_int (round_half_even (x / ulp)) * ulp - x\<bar>"
  proof -
    have "\<bar>of_int (round_half_even (x / ulp)) - x / ulp\<bar> * ulp =
        \<bar>(of_int (round_half_even (x / ulp)) - x / ulp) * ulp\<bar>"
      using pos by (simp add: abs_mult)
    then show ?thesis using pos by (simp add: left_diff_distrib)
  qed
  ultimately have "\<bar>of_int (round_half_even (x / ulp)) * ulp - x\<bar> \<le> 2 ^ 970"
    using ulp by simp
  moreover have "binary64 x = Finite (of_int (round_half_even (x / ulp)) * ulp)"
    using assms by (simp add: binary64_def Let_def e_def ulp_def)
  ultimately show ?thesis by blast
qed

subsection \<open>\<open>format_result\<close>, case by case\<close>

lemma format_result_InrD:
  assumes "format_result result precision_arg h = (Inr out, h')"
  shows "\<exists>r a s e d c.
      read_result h result = Some (r, a) \<and>
      round_float (Finite (start_time r)) (given_or 3 precision_arg) = Inr s \<and>
      round_float (Finite (end_time r)) (given_or 3 precision_arg) = Inr e \<and>
      round_float (duration r) (given_or 3 precision_arg) = Inr d \<and>
      round_float (Finite (similarity_score r)) (given_or 3 precision_arg) = Inr c \<and>
      out =
        [(''ayah_number'', VInt (ayah_number a)),
         (''surah_id'', VInt (surah_id a)),
         (''start_time'', VFloat s),
         (''end_time'', VFloat e),
         (''duration'', VFloat d),
         (''transcribed_text'', VStr (transcribed_text r)),
         (''reference_text'', VStr (text a)),
         (''similarity_score'', VFloat c),
         (''is_high_confidence'', VBool (is_high_confidence r)),
         (''overlap_detected'', VBool (overlap_detected r))] \<and>
      h' = h"
  using assms unfolding format_result_def Let_def read_result_Some
  by (auto elim!: py_bind_InrD simp: get_result_Inr get_ayah_Inr py_lift_Inr py_return_Inr)

lemma format_result_InrI:
  assumes "read_result h result = Some (r, a)"
    and "round_float (Finite (start_time r)) (given_or 3 precision_arg) = Inr s"
    and "round_float (Finite (end_time r)) (given_or 3 precision_arg) = Inr e"
    and "round_float (duration r) (given_or 3 precision_arg) = Inr d"
    and "round_float (Finite (similarity_score r)) (given_or 3 precision_arg) = Inr c"
  shows "format_result result precision_arg h =
      (Inr
        [(''ayah_number'', VInt (ayah_number a)),
         (''surah_id'', VInt (surah_id a)),
         (''start_time'', VFloat s),
         (''end_time'', VFloat e),
         (''duration'', VFloat d),
         (''transcribed_text'', VStr (transcribed_text r)),
         (''reference_text'', VStr (text a)),
         (''similarity_score'', VFloat c),
         (''is_high_confidence'', VBool (is_high_confidence r)),
         (''overlap_detected'', VBool (overlap_detected r))], h)"
  using assms unfolding format_result_def Let_def read_result_Some
  by (simp add: py_bind_def get_result_def get_ayah_def py_lift_def py_return_def)

lemma format_result_unfold:
  "format_result result precision_arg h = (fst (format_result result precision_arg h), h)"
  by (metis format_result_frame prod.collapse)

subsection \<open>\<open>format_results\<close>, case by case\<close>

lemma format_each_InrD:
  "format_each rs precision h = (Inr ds, h') \<Longrightarrow>
   h' = h \<and> list_all2 (\<lambda>a v. \<exists>d. format_result a (Given precision) h = (Inr d, h) \<and> v = VDict d) rs ds"
proof (induction rs arbitrary: ds h')
  case Nil
  then show ?case by (simp add: py_return_def)
next
  case (Cons a rs)
  from Cons.prems obtain d h1 ds' h2 where
      1: "format_result a (Given precision) h = (Inr d, h1)" and
      2: "format_each rs precision h1 = (Inr ds', h2)" and
      3: "py_return (VDict d # ds') h2 = (Inr ds, h')"
    by (auto elim!: py_bind_InrD)
  from 1 format_result_frame [of a "Given precision" h] have h1: "h1 = h" by simp
  from 2 h1 have "format_each rs precision h = (Inr ds', h2)" by simp
  from Cons.IH [OF this] 1 3 h1 show ?case by (auto simp: py_return_def)
qed

lemma format_results_InrD:
  assumes "format_results results sid reciter precision_arg h = (Inr out, h')"
  shows "\<exists>rs ds. h results = Some (List_obj rs) \<and>
      format_each rs (given_or 3 precision_arg) h = (Inr ds, h) \<and>
      out = (''ayahs'', VList ds) #
            (case sid of None \<Rightarrow> [] | Some s \<Rightarrow> [(''surah_id'', VInt s)]) @
            (case reciter of None \<Rightarrow> [] | Some n \<Rightarrow> [(''reciter'', VStr n)]) \<and>
      h' = h"
proof -
  from assms obtain rs h1 ds h2 where
      1: "get_list results h = (Inr rs, h1)" and
      2: "format_each rs (given_or 3 precision_arg) h1 = (Inr ds, h2)" and
      3: "py_return (case reciter of None \<Rightarrow> (case sid of None \<Rightarrow> [(''ayahs'', VList ds)]
                    | Some s \<Rightarrow> AList.update ''surah_id'' (VInt s) [(''ayahs'', VList ds)])
                    | Some n \<Rightarrow> AList.update ''reciter'' (VStr n) (case sid of None \<Rightarrow> [(''ayahs'', VList ds)]
                    | Some s \<Rightarrow> AList.update ''surah_id'' (VInt s) [(''ayahs'', VList ds)])) h2 = (Inr out, h')"
    unfolding format_results_def Let_def by (auto elim!: py_bind_InrD)
  from 1 have rs: "h results = Some (List_obj rs)" and h1: "h1 = h" by (simp_all add: get_list_Inr)
  from 2 h1 format_each_frame [of rs "given_or 3 precision_arg" h] have h2: "h2 = h" by simp
  from 3 have "out = (''ayahs'', VList ds) #
            (case sid of None \<Rightarrow> [] | Some s \<Rightarrow> [(''surah_id'', VInt s)]) @
            (case reciter of None \<Rightarrow> [] | Some n \<Rightarrow> [(''reciter'', VStr n)])" and "h' = h2"
    by (auto simp: py_return_def split: option.splits)
  with rs 2 h1 h2 show ?thesis by blast
qed

lemma format_each_json: "format_each rs precision h = (Inr ds, h') \<Longrightarrow> list_all json_type ds"
proof -
  assume "format_each rs precision h = (Inr ds, h')"
  then have "list_all2 (\<lambda>a v. \<exists>d. format_result a (Given precision) h = (Inr d, h) \<and> v = VDict d) rs ds"
    by (simp add: format_each_InrD)
  then show ?thesis
  proof (induction rule: list_all2_induct)
    case Nil
    then show ?case by simp
  next
    case (Cons a rs v ds)
    then obtain d where "format_result a (Given precision) h = (Inr d, h)" and "v = VDict d" by blast
    then have "json_type v" by (auto dest!: format_result_InrD)
    with Cons show ?case by simp
  qed
qed

subsection \<open>Two stores\<close>

lemma same_result_format:
  assumes "same_result h1 a1 h2 a2"
  shows "fst (format_result a1 precision_arg h1) = fst (format_result a2 precision_arg h2)"
proof -
  from assms obtain r1 r2 y where
      "h1 a1 = Some (Result_obj r1)" "h2 a2 = Some (Result_obj r2)"
      "h1 (ayah r1) = Some (Ayah_obj y)" "h2 (ayah r2) = Some (Ayah_obj y)"
      "start_time r1 = start_time r2" "end_time r1 = end_time r2"
      "transcribed_text r1 = transcribed_text r2" "similarity_score r1 = similarity_score r2"
      "is_high_confidence r1 = is_high_confidence r2" "overlap_detected r1 = overlap_detected r2"
  proof (cases "read_result h1 a1")
    case None
    with assms show ?thesis by (simp add: same_result_def)
  next
    case 1: (Some p1)
    show ?thesis
    proof (cases "read_result h2 a2")
      case None
      with assms 1 show ?thesis by (simp add: same_result_def split: prod.splits)
    next
      case 2: (Some p2)
      obtain r1 y1 r2 y2 where p: "p1 = (r1, y1)" "p2 = (r2, y2)"
        by (cases p1, cases p2) blast
      with assms 1 2 that [of r1 r2 y1] show ?thesis
        by (simp add: same_result_def read_result_Some)
    qed
  qed
  then show ?thesis
    by (simp add: format_result_def Let_def py_bind_def get_result_def
      get_ayah_def py_lift_def py_return_def duration_def split: sum.splits)
qed

lemma format_each_Cons_fst:
  "fst (format_each (a # rs) precision h) =
     (case fst (format_result a (Given precision) h) of
        Inl e \<Rightarrow> Inl e
      | Inr d \<Rightarrow> (case fst (format_each rs precision h) of
                  Inl e \<Rightarrow> Inl e
                | Inr ds \<Rightarrow> Inr (VDict d # ds)))"
  by (simp add: py_bind_fst format_result_frame format_each_frame py_return_def
      split: sum.splits)

lemma same_result_format_each:
  assumes "list_all2 (\<lambda>a1 a2. same_result h1 a1 h2 a2) rs1 rs2"
  shows "fst (format_each rs1 precision h1) = fst (format_each rs2 precision h2)"
  using assms
proof (induction rule: list_all2_induct)
  case Nil
  then show ?case by (simp add: py_return_def)
next
  case (Cons a1 rs1 a2 rs2)
  from Cons.hyps(1)
  have "fst (format_result a1 (Given precision) h1) = fst (format_result a2 (Given precision) h2)"
    by (rule same_result_format)
  with Cons.IH show ?case by (simp only: format_each_Cons_fst)
qed

lemma same_result_format_results:
  assumes "h1 l1 = Some (List_obj rs1)" and "h2 l2 = Some (List_obj rs2)"
    and "list_all2 (\<lambda>a1 a2. same_result h1 a1 h2 a2) rs1 rs2"
  shows "fst (format_results l1 sid reciter precision_arg h1) =
         fst (format_results l2 sid reciter precision_arg h2)"
proof -
  from assms(3)
  have "fst (format_each rs1 (given_or 3 precision_arg) h1) =
        fst (format_each rs2 (given_or 3 precision_arg) h2)"
    by (rule same_result_format_each)
  with assms(1,2) show ?thesis
    by (simp add: format_results_def Let_def py_bind_fst get_list_frame format_each_frame
        get_list_def py_return_def split: sum.splits)
qed

subsection \<open>The formatter on the sample data\<close>

lemma sample_reads:
  "read_result sample_store 10 = Some (sample_result, sample_ayah)"
  "read_result sample_store 20 = Some (sample_result_with_overlap, sample_ayah_2)"
  by (simp_all add: read_result_def sample_store_def sample_result_def
      sample_result_with_overlap_def)

lemma sample_rounds:
  "py_round (181 / 32) 3 = Inr (5656 / 1000)"
  "py_round (73 / 8) 3 = Inr (9125 / 1000)"
  "py_round (111 / 32) 3 = Inr (3469 / 1000)"
  "py_round (31 / 32) 3 = Inr (969 / 1000)"
  "py_round 10 3 = Inr 10"
  "py_round 14 3 = Inr 14"
  "py_round 4 3 = Inr 4"
  "py_round (23 / 32) 3 = Inr (719 / 1000)"
  by (simp_all add: py_round_def decimal_round_def round_half_even_def Let_def
      NDIGITS_MAX_def NDIGITS_MIN_def float_overflow_def)

lemma sample_rounds_2:
  "py_round (181 / 32) 2 = Inr (566 / 100)"
  "py_round (73 / 8) 2 = Inr (912 / 100)"
  "py_round (111 / 32) 2 = Inr (347 / 100)"
  "py_round (31 / 32) 2 = Inr (97 / 100)"
  "py_round 10 2 = Inr 10"
  "py_round 14 2 = Inr 14"
  "py_round 4 2 = Inr 4"
  "py_round (23 / 32) 2 = Inr (72 / 100)"
  by (simp_all add: py_round_def decimal_round_def round_half_even_def Let_def
      NDIGITS_MAX_def NDIGITS_MIN_def float_overflow_def)

lemmas binary64_eval = binary64_def float_exponent_numeral float_overflow_def Let_def
  round_half_even_def

lemma sample_float_subs:
  "float_sub (73 / 8) (181 / 32) = Finite (111 / 32)"
  "float_sub 14 10 = Finite 4"
  "float_sub (5 / 8) (3 / 8) = Finite (1 / 4)"
  "float_sub (6628848291526633 / 562949953421312) (3196204655544841 / 4503599627370496) =
     Finite (778665338697941 / 70368744177664)"
  by (simp_all add: float_sub_def binary64_eval)

lemma sample_durations:
  "duration sample_result = Finite (111 / 32)"
  "duration sample_result_with_overlap = Finite 4"
  by (simp_all add: duration_def sample_float_subs sample_result_def
      sample_result_with_overlap_def)

lemmas format_result_eval = format_result_def Let_def py_bind_def get_result_def get_ayah_def
  py_lift_def py_return_def

lemma sample_format_result:
  "format_result 10 Omitted sample_store = (Inr sample_out, sample_store)"
  "format_result 10 (Given 3) sample_store = (Inr sample_out, sample_store)"
  "format_result 20 (Given 3) sample_store = (Inr sample_out_with_overlap, sample_store)"
  by (simp_all add: format_result_eval sample_store_def duration_def sample_float_subs
      sample_rounds sample_result_def sample_result_with_overlap_def
      sample_ayah_def sample_ayah_2_def sample_out_def sample_out_with_overlap_def)

lemma sample_format_result_2:
  "format_result 10 (Given 2) sample_store = (Inr sample_out_2, sample_store)"
  "format_result 20 (Given 2) sample_store = (Inr sample_out_with_overlap_2, sample_store)"
  by (simp_all add: format_result_eval sample_store_def duration_def sample_float_subs
      sample_rounds_2 sample_result_def sample_result_with_overlap_def
      sample_ayah_def sample_ayah_2_def sample_out_2_def sample_out_with_overlap_2_def)

lemma sample_format_each:
  "format_each [10, 20] 3 sample_store =
     (Inr [VDict sample_out, VDict sample_out_with_overlap], sample_store)"
  by (simp add: py_bind_def py_return_def sample_format_result)

lemma sample_lists:
  "sample_store 30 = Some (List_obj [10, 20])" "sample_store 40 = Some (List_obj [])"
  by (simp_all add: sample_store_def)

lemma sample_format_results:
  "format_results 30 None None Omitted sample_store =
     (Inr [(''ayahs'', VList [VDict sample_out, VDict sample_out_with_overlap])], sample_store)"
  "format_results 30 (Some 1) (Some ''Test Reciter'') Omitted sample_store =
     (Inr [(''ayahs'', VList [VDict sample_out, VDict sample_out_with_overlap]),
           (''surah_id'', VInt 1), (''reciter'', VStr ''Test Reciter'')], sample_store)"
  "format_results 30 (Some 1) None Omitted sample_store =
     (Inr [(''ayahs'', VList [VDict sample_out, VDict sample_out_with_overlap]),
           (''surah_id'', VInt 1)], sample_store)"
  by (simp_all add: format_results_def Let_def py_bind_def py_return_def get_list_def
      sample_lists sample_format_each del: format_each.simps)

lemma sample_format_results_2:
  "format_results 30 None None (Given 2) sample_store =
     (Inr [(''ayahs'', VList [VDict sample_out_2, VDict sample_out_with_overlap_2])],
      sample_store)"
  by (simp add: format_results_def Let_def py_bind_def py_return_def get_list_def
      sample_lists sample_format_result_2)

lemmas round_eval = py_round_def decimal_round_def round_half_even_def Let_def
  NDIGITS_MAX_def NDIGITS_MIN_def float_overflow_def

lemma short_reads: "read_result short_store 10 = Some (short_result, sample_ayah)"
  by (simp add: read_result_def short_store_def short_result_def)

lemma short_duration: "duration short_result = Finite (1 / 4)"
  by (simp add: duration_def sample_float_subs short_result_def)

lemma short_format_result:
  "format_result 10 (Given 0) short_store = (Inr short_out, short_store)"
  by (simp add: format_result_eval short_store_def duration_def sample_float_subs
      round_eval short_result_def sample_ayah_def short_out_def)

lemma inexact_reads: "read_result inexact_store 10 = Some (inexact_result, sample_ayah)"
  by (simp add: read_result_def inexact_store_def inexact_result_def)

lemma inexact_duration:
  "duration inexact_result = Finite (778665338697941 / 70368744177664)"
  by (simp add: duration_def sample_float_subs inexact_result_def)

lemma inexact_format_result:
  "format_result 10 (Given 3) inexact_store = (Inr inexact_out, inexact_store)"
  by (simp add: format_result_eval inexact_store_def duration_def sample_float_subs
      round_eval inexact_result_def sample_ayah_def inexact_out_def)

lemma huge_reads: "read_result huge_store 10 = Some (huge_result, sample_ayah)"
  by (simp add: read_result_def huge_store_def huge_result_def)

lemma huge_end_time_round:
  "py_round (end_time huge_result) (- 308) = Inl OverflowError"
  by (simp add: huge_result_def round_eval)

lemma huge_format_result:
  "format_result 10 (Given (- 308)) huge_store = (Inl OverflowError, huge_store)"
proof -
  have "py_round (start_time huge_result) (- 308) = Inr 0"
    by (simp add: huge_result_def round_eval)
  moreover have "ayah huge_result = 11" by (simp add: huge_result_def)
  ultimately show ?thesis using huge_end_time_round
    by (simp add: format_result_eval huge_store_def)
qed

lemma sample_same_result:
  "same_result sample_store 10 relocated_store 110"
  "same_result sample_store 20 relocated_store 120"
  by (simp_all add: same_result_def read_result_def sample_store_def relocated_store_def
      sample_result_def sample_result_with_overlap_def)

lemma sample_magnitudes:
  "\<bar>start_time sample_result\<bar> \<le> 10 ^ 308" "\<bar>end_time sample_result\<bar> \<le> 10 ^ 308"
  "\<bar>end_time sample_result - start_time sample_result\<bar> \<le> 10 ^ 308"
  "\<bar>similarity_score sample_result\<bar> \<le> 10 ^ 308"
  by (simp_all add: sample_result_def)

section \<open>Properties of the formatter\<close>

text \<open>
  C1. Whenever \<open>format_result\<close> returns for a result and its ayah, the dict has exactly
  the ten canonical keys, each once; \<open>ayah_number\<close> and \<open>surah_id\<close> are those of
  \<open>result.ayah\<close>, \<open>transcribed_text\<close> is that of the result, \<open>reference_text\<close> is
  \<open>result.ayah.text\<close>, and \<open>is_high_confidence\<close> and \<open>overlap_detected\<close> are passed
  through unchanged.
\<close>

theorem format_result_canonical_schema:
  assumes "read_result h result = Some (r, a)"
    and "format_result result precision_arg h = (Inr out, h')"
  shows "set (map fst out) =
           {''ayah_number'', ''surah_id'', ''start_time'', ''end_time'', ''duration'',
            ''transcribed_text'', ''reference_text'', ''similarity_score'',
            ''is_high_confidence'', ''overlap_detected''} \<and>
         distinct (map fst out) \<and> length out = 10 \<and>
         map_of out ''ayah_number'' = Some (VInt (ayah_number a)) \<and>
         map_of out ''surah_id'' = Some (VInt (surah_id a)) \<and>
         map_of out ''transcribed_text'' = Some (VStr (transcribed_text r)) \<and>
         map_of out ''reference_text'' = Some (VStr (text a)) \<and>
         map_of out ''is_high_confidence'' = Some (VBool (is_high_confidence r)) \<and>
         map_of out ''overlap_detected'' = Some (VBool (overlap_detected r))"
proof -
  from assms(2) obtain r' a' s e d c where
      "read_result h result = Some (r', a')" and
      out: "out =
        [(''ayah_number'', VInt (ayah_number a')),
         (''surah_id'', VInt (surah_id a')),
         (''start_time'', VFloat s),
         (''end_time'', VFloat e),
         (''duration'', VFloat d),
         (''transcribed_text'', VStr (transcribed_text r')),
         (''reference_text'', VStr (text a')),
         (''similarity_score'', VFloat c),
         (''is_high_confidence'', VBool (is_high_confidence r')),
         (''overlap_detected'', VBool (overlap_detected r'))]"
    by (blast dest: format_result_InrD)
  with assms(1) have "r' = r" and "a' = a" by simp_all
  with out show ?thesis by auto
qed

theorem format_result_canonical_schema_witness:
  "read_result sample_store 10 = Some (sample_result, sample_ayah) \<and>
   format_result 10 Omitted sample_store = (Inr sample_out, sample_store) \<and>
   set (map fst sample_out) =
     {''ayah_number'', ''surah_id'', ''start_time'', ''end_time'', ''duration'',
      ''transcribed_text'', ''reference_text'', ''similarity_score'',
      ''is_high_confidence'', ''overlap_detected''} \<and>
   distinct (map fst sample_out) \<and> length sample_out = 10 \<and>
   map_of sample_out ''ayah_number'' = Some (VInt 1) \<and>
   map_of sample_out ''surah_id'' = Some (VInt 1) \<and>
   map_of sample_out ''transcribed_text'' = Some (VStr ''bismi allahi alrrahmani alrraheemi'') \<and>
   map_of sample_out ''reference_text'' = Some (VStr ''bismi allahi alrrahmani alrraheemi'') \<and>
   map_of sample_out ''is_high_confidence'' = Some (VBool True) \<and>
   map_of sample_out ''overlap_detected'' = Some (VBool False)"
  using format_result_canonical_schema [OF sample_reads(1) sample_format_result(1)]
    sample_reads(1) sample_format_result(1)
  by (simp add: sample_result_def sample_ayah_def)

text \<open>
  C2. For every precision \<open>p\<close>, the dict \<open>format_result\<close> returns when called with \<open>p\<close>
  holds \<open>round\<close> at \<open>p\<close> of \<open>start_time\<close>, \<open>end_time\<close>, \<open>duration\<close> and \<open>similarity_score\<close>
  and every other field as it is; every entry of the list \<open>format_results\<close> returns under
  \<open>ayahs\<close> when called with \<open>p\<close> is what \<open>format_result\<close> returns for that element at
  \<open>p\<close>; and for both functions a call without a precision is the call with precision 3.
\<close>

theorem format_result_rounds_floats:
  "(read_result h result = Some (r, a) \<and> format_result result (Given p) h = (Inr out, h') \<longrightarrow>
      (\<exists>s e d c.
          round_float (Finite (start_time r)) p = Inr s \<and>
          round_float (Finite (end_time r)) p = Inr e \<and>
          round_float (duration r) p = Inr d \<and>
          round_float (Finite (similarity_score r)) p = Inr c \<and>
          out =
            [(''ayah_number'', VInt (ayah_number a)),
             (''surah_id'', VInt (surah_id a)),
             (''start_time'', VFloat s),
             (''end_time'', VFloat e),
             (''duration'', VFloat d),
             (''transcribed_text'', VStr (transcribed_text r)),
             (''reference_text'', VStr (text a)),
             (''similarity_score'', VFloat c),
             (''is_high_confidence'', VBool (is_high_confidence r)),
             (''overlap_detected'', VBool (overlap_detected r))])) \<and>
   (hs results = Some (List_obj rs) \<and>
    format_results results sid reciter (Given p) hs = (Inr outs, hs') \<longrightarrow>
      (\<exists>ds. map_of outs ''ayahs'' = Some (VList ds) \<and>
         list_all2 (\<lambda>x v. \<exists>d. format_result x (Given p) hs = (Inr d, hs) \<and> v = VDict d) rs ds)) \<and>
   format_result result Omitted = format_result result (Given 3) \<and>
   format_results results sid reciter Omitted = format_results results sid reciter (Given 3)"
proof (intro conjI impI)
  assume "read_result h result = Some (r, a) \<and> format_result result (Given p) h = (Inr out, h')"
  then have 1: "read_result h result = Some (r, a)"
    and 2: "format_result result (Given p) h = (Inr out, h')"
    by simp_all
  from format_result_InrD [OF 2] 1
  show "\<exists>s e d c.
          round_float (Finite (start_time r)) p = Inr s \<and>
          round_float (Finite (end_time r)) p = Inr e \<and>
          round_float (duration r) p = Inr d \<and>
          round_float (Finite (similarity_score r)) p = Inr c \<and>
          out =
            [(''ayah_number'', VInt (ayah_number a)),
             (''surah_id'', VInt (surah_id a)),
             (''start_time'', VFloat s),
             (''end_time'', VFloat e),
             (''duration'', VFloat d),
             (''transcribed_text'', VStr (transcribed_text r)),
             (''reference_text'', VStr (text a)),
             (''similarity_score'', VFloat c),
             (''is_high_confidence'', VBool (is_high_confidence r)),
             (''overlap_detected'', VBool (overlap_detected r))]"
    by auto
next
  assume "hs results = Some (List_obj rs) \<and>
    format_results results sid reciter (Given p) hs = (Inr outs, hs')"
  then have 3: "hs results = Some (List_obj rs)"
    and 4: "format_results results sid reciter (Given p) hs = (Inr outs, hs')"
    by simp_all
  from format_results_InrD [OF 4] 3 obtain ds where
      each: "format_each rs p hs = (Inr ds, hs)" and
      outs: "outs = (''ayahs'', VList ds) #
            (case sid of None \<Rightarrow> [] | Some s \<Rightarrow> [(''surah_id'', VInt s)]) @
            (case reciter of None \<Rightarrow> [] | Some n \<Rightarrow> [(''reciter'', VStr n)])"
    by auto
  from format_each_InrD [OF each] outs
  show "\<exists>ds. map_of outs ''ayahs'' = Some (VList ds) \<and>
         list_all2 (\<lambda>x v. \<exists>d. format_result x (Given p) hs = (Inr d, hs) \<and> v = VDict d) rs ds"
    by simp
next
  show "format_result result Omitted = format_result result (Given 3)"
    by (simp add: format_result_def)
next
  show "format_results results sid reciter Omitted = format_results results sid reciter (Given 3)"
    by (simp add: format_results_def)
qed

theorem format_result_rounds_floats_witness:
  "read_result sample_store 10 = Some (sample_result, sample_ayah) \<and>
   format_result 10 (Given 2) sample_store = (Inr sample_out_2, sample_store) \<and>
   sample_store 30 = Some (List_obj [10, 20]) \<and>
   format_results 30 None None (Given 2) sample_store =
     (Inr [(''ayahs'', VList [VDict sample_out_2, VDict sample_out_with_overlap_2])],
      sample_store) \<and>
   round_float (Finite (start_time sample_result)) 2 = Inr (Finite (566 / 100)) \<and>
   round_float (Finite (end_time sample_result)) 2 = Inr (Finite (912 / 100)) \<and>
   round_float (duration sample_result) 2 = Inr (Finite (347 / 100)) \<and>
   round_float (Finite (similarity_score sample_result)) 2 = Inr (Finite (97 / 100)) \<and>
   map_of sample_out_2 ''start_time'' = Some (VFloat (Finite (566 / 100))) \<and>
   map_of sample_out_2 ''end_time'' = Some (VFloat (Finite (912 / 100))) \<and>
   map_of sample_out_2 ''duration'' = Some (VFloat (Finite (347 / 100))) \<and>
   map_of sample_out_2 ''similarity_score'' = Some (VFloat (Finite (97 / 100))) \<and>
   sample_out_2 \<noteq> sample_out \<and>
   (\<exists>ds. map_of [(''ayahs'', VList [VDict sample_out_2, VDict sample_out_with_overlap_2])]
           ''ayahs'' = Some (VList ds) \<and>
      list_all2
        (\<lambda>x v. \<exists>d. format_result x (Given 2) sample_store = (Inr d, sample_store) \<and> v = VDict d)
        [10, 20] ds) \<and>
   format_result 10 Omitted = format_result 10 (Given 3) \<and>
   format_results 30 None None Omitted = format_results 30 None None (Given 3)"
proof -
  note rounds = format_result_rounds_floats [where h = sample_store and result = 10
      and r = sample_result and a = sample_ayah and p = 2 and out = sample_out_2
      and h' = sample_store and hs = sample_store and results = 30 and rs = "[10, 20]"
      and sid = None and reciter = None and hs' = sample_store
      and outs = "[(''ayahs'', VList [VDict sample_out_2, VDict sample_out_with_overlap_2])]"]
  have fields:
    "round_float (Finite (start_time sample_result)) 2 = Inr (Finite (566 / 100))"
    "round_float (Finite (end_time sample_result)) 2 = Inr (Finite (912 / 100))"
    "round_float (Finite (similarity_score sample_result)) 2 = Inr (Finite (97 / 100))"
    by (simp_all add: sample_result_def sample_rounds_2)
  have dur: "round_float (duration sample_result) 2 = Inr (Finite (347 / 100))"
    by (simp add: sample_durations sample_rounds_2)
  have entries:
    "map_of sample_out_2 ''start_time'' = Some (VFloat (Finite (566 / 100)))"
    "map_of sample_out_2 ''end_time'' = Some (VFloat (Finite (912 / 100)))"
    "map_of sample_out_2 ''duration'' = Some (VFloat (Finite (347 / 100)))"
    "map_of sample_out_2 ''similarity_score'' = Some (VFloat (Finite (97 / 100)))"
    by (simp_all add: sample_out_2_def)
  have differ: "sample_out_2 \<noteq> sample_out"
    by (simp add: sample_out_2_def sample_out_def)
  from rounds sample_reads(1) sample_format_result_2(1) sample_lists(1) sample_format_results_2
    fields dur entries differ
  show ?thesis by blast
qed

text \<open>
  C3, as amended. The duration of a result is the float difference
  \<open>end_time - start_time\<close>, and it is not negative when \<open>start_time \<le> end_time\<close>. In every
  dict \<open>format_result\<close> returns, the value under \<open>duration\<close> is \<open>round\<close>, at the precision
  of the call, of that float difference of the unrounded fields, and it is not negative
  when \<open>start_time \<le> end_time\<close>.
\<close>

theorem format_result_duration_rounded_difference:
  assumes "read_result h result = Some (r, a)"
    and "format_result result (Given p) h = (Inr out, h')"
  shows "duration r = float_sub (end_time r) (start_time r) \<and>
         (start_time r \<le> end_time r \<longrightarrow> float_nonneg (duration r)) \<and>
         (\<exists>d. round_float (float_sub (end_time r) (start_time r)) p = Inr d \<and>
              map_of out ''duration'' = Some (VFloat d) \<and>
              (start_time r \<le> end_time r \<longrightarrow> float_nonneg d))"
proof -
  from format_result_InrD [OF assms(2)] assms(1) obtain d where
      d: "round_float (duration r) p = Inr d" and
      out: "map_of out ''duration'' = Some (VFloat d)"
    by auto
  have nonneg: "float_nonneg (duration r)" if "start_time r \<le> end_time r"
    using that by (simp add: duration_def float_sub_def binary64_nonneg)
  then have "float_nonneg d" if "start_time r \<le> end_time r"
    using that d by (blast intro: round_float_nonneg)
  with d out nonneg show ?thesis by (auto simp: duration_def)
qed

theorem format_result_duration_rounded_difference_witness:
  "read_result inexact_store 10 = Some (inexact_result, sample_ayah) \<and>
   format_result 10 (Given 3) inexact_store = (Inr inexact_out, inexact_store) \<and>
   start_time inexact_result \<le> end_time inexact_result \<and>
   duration inexact_result = Finite (778665338697941 / 70368744177664) \<and>
   float_nonneg (duration inexact_result) \<and>
   round_float (float_sub (end_time inexact_result) (start_time inexact_result)) 3 =
     Inr (Finite (11066 / 1000)) \<and>
   map_of inexact_out ''duration'' = Some (VFloat (Finite (11066 / 1000))) \<and>
   float_nonneg (Finite (11066 / 1000))"
  using format_result_duration_rounded_difference [OF inexact_reads inexact_format_result]
    inexact_reads inexact_format_result inexact_duration
  by (simp add: duration_def inexact_result_def inexact_out_def)

text \<open>
  C3, as stated, fails: the three times are rounded one by one, so the value under
  \<open>duration\<close> need not be the difference of the values under \<open>end_time\<close> and
  \<open>start_time\<close>. At precision 0 a result from 0.375 to 0.625 is formatted with
  \<open>start_time\<close> 0.0, \<open>end_time\<close> 1.0 and \<open>duration\<close> 0.0.
\<close>

theorem format_result_duration_counterexample:
  "read_result short_store 10 = Some (short_result, sample_ayah) \<and>
   start_time short_result \<le> end_time short_result \<and>
   format_result 10 (Given 0) short_store = (Inr short_out, short_store) \<and>
   map_of short_out ''start_time'' = Some (VFloat (Finite 0)) \<and>
   map_of short_out ''end_time'' = Some (VFloat (Finite 1)) \<and>
   map_of short_out ''duration'' = Some (VFloat (Finite 0)) \<and>
   (0 :: real) \<noteq> 1 - 0"
  by (simp add: short_reads short_format_result) (simp add: short_result_def short_out_def)

text \<open>
  C4. In every dict \<open>format_results\<close> returns, the key \<open>surah_id\<close> is present exactly
  when the argument is not \<open>None\<close>, and then holds it; likewise \<open>reciter\<close>; the key
  \<open>ayahs\<close> is always present and holds a list; there is no other key.
\<close>

theorem format_results_optional_keys:
  assumes "format_results results sid reciter precision_arg h = (Inr out, h')"
  shows "(''surah_id'' \<in> fst ` set out) = (sid \<noteq> None) \<and>
         map_of out ''surah_id'' = map_option VInt sid \<and>
         (''reciter'' \<in> fst ` set out) = (reciter \<noteq> None) \<and>
         map_of out ''reciter'' = map_option VStr reciter \<and>
         ''ayahs'' \<in> fst ` set out \<and>
         (\<exists>ds. map_of out ''ayahs'' = Some (VList ds)) \<and>
         fst ` set out \<subseteq> {''ayahs'', ''surah_id'', ''reciter''} \<and>
         distinct (map fst out)"
proof -
  from format_results_InrD [OF assms] obtain ds where
    "out = (''ayahs'', VList ds) #
            (case sid of None \<Rightarrow> [] | Some s \<Rightarrow> [(''surah_id'', VInt s)]) @
            (case reciter of None \<Rightarrow> [] | Some n \<Rightarrow> [(''reciter'', VStr n)])"
    by blast
  then show ?thesis by (cases sid; cases reciter) auto
qed

theorem format_results_optional_keys_witness:
  "format_results 30 (Some 1) None Omitted sample_store =
     (Inr [(''ayahs'', VList [VDict sample_out, VDict sample_out_with_overlap]),
           (''surah_id'', VInt 1)], sample_store) \<and>
   (''surah_id'' \<in> fst ` set [(''ayahs'', VList [VDict sample_out, VDict sample_out_with_overlap]),
           (''surah_id'', VInt 1)]) = (Some (1 :: int) \<noteq> None) \<and>
   map_of [(''ayahs'', VList [VDict sample_out, VDict sample_out_with_overlap]),
           (''surah_id'', VInt 1)] ''surah_id'' = Some (VInt 1) \<and>
   (''reciter'' \<in> fst ` set [(''ayahs'', VList [VDict sample_out, VDict sample_out_with_overlap]),
           (''surah_id'', VInt 1)]) = ((None :: string option) \<noteq> None) \<and>
   map_of [(''ayahs'', VList [VDict sample_out, VDict sample_out_with_overlap]),
           (''surah_id'', VInt 1)] ''reciter'' = None"
  using format_results_optional_keys [OF sample_format_results(3)] sample_format_results(3)
  by simp

text \<open>
  C5. The list under \<open>ayahs\<close> is as long as the list of results, and its i-th entry is
  the dict \<open>format_result\<close> returns for the i-th result, whose \<open>ayah_number\<close> is that of
  the ayah of the i-th result: the ayah numbers come out in the order they went in.
\<close>

theorem format_results_ayahs_in_order:
  assumes "h results = Some (List_obj rs)"
    and "format_results results sid reciter precision_arg h = (Inr out, h')"
  shows "\<exists>ds. map_of out ''ayahs'' = Some (VList ds) \<and> length ds = length rs \<and>
           (\<forall>i < length rs. \<exists>d r a.
              format_result (rs ! i) (Given (given_or 3 precision_arg)) h = (Inr d, h) \<and>
              ds ! i = VDict d \<and>
              read_result h (rs ! i) = Some (r, a) \<and>
              map_of d ''ayah_number'' = Some (VInt (ayah_number a)))"
proof -
  from format_results_InrD [OF assms(2)] assms(1) obtain ds where
      each: "format_each rs (given_or 3 precision_arg) h = (Inr ds, h)" and
      out: "out = (''ayahs'', VList ds) #
            (case sid of None \<Rightarrow> [] | Some s \<Rightarrow> [(''surah_id'', VInt s)]) @
            (case reciter of None \<Rightarrow> [] | Some n \<Rightarrow> [(''reciter'', VStr n)])"
    by auto
  from format_each_InrD [OF each]
  have all: "list_all2 (\<lambda>a v. \<exists>d. format_result a (Given (given_or 3 precision_arg)) h = (Inr d, h) \<and>
                v = VDict d) rs ds"
    by simp
  then have len: "length ds = length rs" by (simp add: list_all2_lengthD)
  have "\<exists>d r a. format_result (rs ! i) (Given (given_or 3 precision_arg)) h = (Inr d, h) \<and>
              ds ! i = VDict d \<and> read_result h (rs ! i) = Some (r, a) \<and>
              map_of d ''ayah_number'' = Some (VInt (ayah_number a))"
    if "i < length rs" for i
  proof -
    from all that obtain d where
        d: "format_result (rs ! i) (Given (given_or 3 precision_arg)) h = (Inr d, h)" and
        v: "ds ! i = VDict d"
      by (auto simp: list_all2_conv_all_nth)
    from format_result_InrD [OF d] obtain r a where
        "read_result h (rs ! i) = Some (r, a)" and
        "map_of d ''ayah_number'' = Some (VInt (ayah_number a))"
      by auto
    with d v show ?thesis by blast
  qed
  with out len show ?thesis by simp
qed

theorem format_results_ayahs_in_order_witness:
  "sample_store 30 = Some (List_obj [10, 20]) \<and>
   format_results 30 None None Omitted sample_store =
     (Inr [(''ayahs'', VList [VDict sample_out, VDict sample_out_with_overlap])], sample_store) \<and>
   (\<exists>ds. map_of [(''ayahs'', VList [VDict sample_out, VDict sample_out_with_overlap])] ''ayahs'' =
           Some (VList ds) \<and> length ds = length [10 :: addr, 20] \<and>
           (\<forall>i < length [10 :: addr, 20]. \<exists>d r a.
              format_result ([10, 20] ! i) (Given (given_or 3 Omitted)) sample_store =
                (Inr d, sample_store) \<and>
              ds ! i = VDict d \<and>
              read_result sample_store ([10, 20] ! i) = Some (r, a) \<and>
              map_of d ''ayah_number'' = Some (VInt (ayah_number a))))"
  using format_results_ayahs_in_order [OF sample_lists(1) sample_format_results(1)]
    sample_lists(1) sample_format_results(1)
  by blast

text \<open>
  C6. The outcome of \<open>format_result\<close> and of \<open>format_results\<close> (the dict, or the
  exception) is a function of the field values of the results, of their ayahs and of
  the other arguments: two calls in two stores, on results at any addresses that agree
  field by field, with equal \<open>surah_id\<close>, \<open>reciter\<close> and precision, have equal outcomes,
  whatever else the stores hold.
\<close>

theorem formatter_deterministic:
  assumes "same_result h1 a1 h2 a2"
    and "h1 l1 = Some (List_obj rs1)" and "h2 l2 = Some (List_obj rs2)"
    and "list_all2 (\<lambda>x1 x2. same_result h1 x1 h2 x2) rs1 rs2"
  shows "fst (format_result a1 precision_arg h1) = fst (format_result a2 precision_arg h2) \<and>
         fst (format_results l1 sid reciter precision_arg h1) =
         fst (format_results l2 sid reciter precision_arg h2)"
  using same_result_format [OF assms(1)] same_result_format_results [OF assms(2,3,4)]
  by simp

theorem formatter_deterministic_witness:
  "same_result sample_store 10 relocated_store 110 \<and>
   sample_store 30 = Some (List_obj [10, 20]) \<and>
   relocated_store 130 = Some (List_obj [110, 120]) \<and>
   list_all2 (\<lambda>x1 x2. same_result sample_store x1 relocated_store x2) [10, 20] [110, 120] \<and>
   fst (format_result 110 Omitted relocated_store) = Inr sample_out \<and>
   fst (format_results 130 (Some 1) (Some ''Test Reciter'') Omitted relocated_store) =
     Inr [(''ayahs'', VList [VDict sample_out, VDict sample_out_with_overlap]),
          (''surah_id'', VInt 1), (''reciter'', VStr ''Test Reciter'')]"
proof -
  have 1: "same_result sample_store 10 relocated_store 110" by (rule sample_same_result)
  have 2: "relocated_store 130 = Some (List_obj [110, 120])" by (simp add: relocated_store_def)
  have 3: "list_all2 (\<lambda>x1 x2. same_result sample_store x1 relocated_store x2) [10, 20] [110, 120]"
    by (simp add: sample_same_result)
  from formatter_deterministic [OF 1 sample_lists(1) 2 3, of Omitted "Some 1" "Some ''Test Reciter''"]
    1 2 3 sample_lists(1) sample_format_result(1) sample_format_results(2)
  show ?thesis by simp
qed

text \<open>
  C7. Every dict \<open>format_results\<close> returns is made of JSON-ready values only: ints,
  floats, strings, bools, and lists and dicts of such, at every depth.
\<close>

theorem format_results_json_ready:
  assumes "format_results results sid reciter precision_arg h = (Inr out, h')"
  shows "json_type (VDict out)"
proof -
  from format_results_InrD [OF assms] obtain rs ds where
      each: "format_each rs (given_or 3 precision_arg) h = (Inr ds, h)" and
      out: "out = (''ayahs'', VList ds) #
            (case sid of None \<Rightarrow> [] | Some s \<Rightarrow> [(''surah_id'', VInt s)]) @
            (case reciter of None \<Rightarrow> [] | Some n \<Rightarrow> [(''reciter'', VStr n)])"
    by blast
  from each have "list_all json_type ds" by (rule format_each_json)
  with out show ?thesis by (cases sid; cases reciter) simp_all
qed

theorem format_results_json_ready_witness:
  "format_results 30 (Some 1) (Some ''Test Reciter'') Omitted sample_store =
     (Inr [(''ayahs'', VList [VDict sample_out, VDict sample_out_with_overlap]),
           (''surah_id'', VInt 1), (''reciter'', VStr ''Test Reciter'')], sample_store) \<and>
   json_type (VDict [(''ayahs'', VList [VDict sample_out, VDict sample_out_with_overlap]),
           (''surah_id'', VInt 1), (''reciter'', VStr ''Test Reciter'')])"
  using format_results_json_ready [OF sample_format_results(2)] sample_format_results(2)
  by simp

text \<open>
  C8. On the empty list, with \<open>surah_id\<close> and \<open>reciter\<close> left out, \<open>format_results\<close>
  does not raise and returns exactly \<open>{"ayahs": []}\<close>, whatever the precision.
\<close>

theorem format_results_empty_list:
  assumes "h results = Some (List_obj [])"
  shows "format_results results None None precision_arg h = (Inr [(''ayahs'', VList [])], h)"
  using assms
  by (simp add: format_results_def Let_def py_bind_def get_list_def py_return_def)

theorem format_results_empty_list_witness:
  "sample_store 40 = Some (List_obj []) \<and>
   format_results 40 None None Omitted sample_store = (Inr [(''ayahs'', VList [])], sample_store)"
  using format_results_empty_list [where h = sample_store and results = 40
      and precision_arg = Omitted] sample_lists(2)
  by simp

text \<open>
  C9. Neither \<open>format_result\<close> nor \<open>format_results\<close> changes the store: after a call,
  returning or raising, every result object, every ayah object and the list of results
  are what they were before.
\<close>

theorem formatter_leaves_store_unchanged:
  "snd (format_result result precision_arg h) = h \<and>
   snd (format_results results sid reciter precision_arg h) = h"
  by (simp add: format_result_frame format_results_frame)

theorem formatter_leaves_store_unchanged_witness:
  "snd (format_result 10 (Given 2) sample_store) = sample_store \<and>
   snd (format_results 30 (Some 1) (Some ''Test Reciter'') (Given 2) sample_store) = sample_store"
  using formatter_leaves_store_unchanged [where result = 10 and precision_arg = "Given 2"
      and h = sample_store and results = 30 and sid = "Some 1"
      and reciter = "Some ''Test Reciter''"]
  by simp

text \<open>
  C10, as amended. For a result whose \<open>start_time\<close>, \<open>end_time\<close>, their difference and
  \<open>similarity_score\<close> are at most \<open>10 ^ 308\<close> in magnitude, \<open>format_result\<close> returns a
  dict at every precision, given or not, positive, zero or negative.
\<close>

theorem format_result_returns_below_overflow:
  assumes "read_result h result = Some (r, a)"
    and "\<bar>start_time r\<bar> \<le> 10 ^ 308" and "\<bar>end_time r\<bar> \<le> 10 ^ 308"
    and "\<bar>end_time r - start_time r\<bar> \<le> 10 ^ 308" and "\<bar>similarity_score r\<bar> \<le> 10 ^ 308"
  shows "\<exists>out. format_result result precision_arg h = (Inr out, h)"
proof -
  from round_float_returns [OF assms(2)] obtain s where
    "round_float (Finite (start_time r)) (given_or 3 precision_arg) = Inr s" by blast
  moreover from round_float_returns [OF assms(3)] obtain e where
    "round_float (Finite (end_time r)) (given_or 3 precision_arg) = Inr e" by blast
  moreover have "\<exists>d. round_float (duration r) (given_or 3 precision_arg) = Inr d"
  proof -
    from assms(4) below_float_overflow
    have "\<bar>end_time r - start_time r\<bar> < float_overflow" by (rule le_less_trans)
    from binary64_near [OF this] obtain x where
        x: "duration r = Finite x" and
        near: "\<bar>x - (end_time r - start_time r)\<bar> \<le> 2 ^ 970"
      by (auto simp: duration_def float_sub_def)
    have "\<bar>x\<bar> \<le> \<bar>x - (end_time r - start_time r)\<bar> + \<bar>end_time r - start_time r\<bar>" by simp
    also from near assms(4) have "\<dots> \<le> 2 ^ 970 + 10 ^ 308" by (rule add_mono)
    finally have "\<bar>x\<bar> \<le> 10 ^ 308 + 2 ^ 970" by (simp only: add.commute)
    from round_float_returns_wide [OF this] x show ?thesis by simp
  qed
  then obtain d where "round_float (duration r) (given_or 3 precision_arg) = Inr d" by blast
  moreover from round_float_returns [OF assms(5)] obtain c where
    "round_float (Finite (similarity_score r)) (given_or 3 precision_arg) = Inr c" by blast
  ultimately show ?thesis using format_result_InrI [OF assms(1)] by blast
qed

theorem format_result_returns_below_overflow_witness:
  "read_result sample_store 10 = Some (sample_result, sample_ayah) \<and>
   \<bar>start_time sample_result\<bar> \<le> 10 ^ 308 \<and> \<bar>end_time sample_result\<bar> \<le> 10 ^ 308 \<and>
   \<bar>end_time sample_result - start_time sample_result\<bar> \<le> 10 ^ 308 \<and>
   \<bar>similarity_score sample_result\<bar> \<le> 10 ^ 308 \<and>
   (\<exists>out. format_result 10 (Given (- 1)) sample_store = (Inr out, sample_store))"
proof -
  from format_result_returns_below_overflow [OF sample_reads(1) sample_magnitudes,
      of "Given (- 1)"]
  have "\<exists>out. format_result 10 (Given (- 1)) sample_store = (Inr out, sample_store)" .
  with sample_reads(1) sample_magnitudes show ?thesis by (intro conjI)
qed

text \<open>
  C10, as stated, fails: \<open>round\<close> raises \<open>OverflowError\<close> when the rounded value is
  beyond the largest float. A result that ends at \<open>sys.float_info.max\<close>, formatted at
  precision -308, makes \<open>format_result\<close> raise instead of returning a dict.
\<close>

theorem format_result_overflow_counterexample:
  "read_result huge_store 10 = Some (huge_result, sample_ayah) \<and>
   format_result 10 (Given (- 308)) huge_store = (Inl OverflowError, huge_store)"
  by (simp add: huge_reads huge_format_result)

end
